theory Spec2Isabelle
  imports Main
begin

section \<open>School management: subjects and their teaching faculty\<close>

text \<open>
  \<^verbatim>\<open>python/fastapi/school-management/main.py\<close> declares two tables. Only the primary
  keys are non-null; every other column is a plain \<^verbatim>\<open>Column(String)\<close> and may hold NULL,
  so those columns carry \<open>string option\<close>. The ORM renders a comparison of a column with
  the Python value \<^verbatim>\<open>None\<close> as \<^verbatim>\<open>IS NULL\<close>, hence the filter
  \<^verbatim>\<open>TeachingFaculty.course == subject.name\<close> is equality on \<open>string option\<close>.
\<close>

record Subject =
  id_subject :: int
  name :: "string option"
  duration :: "string option"
  department :: "string option"

record TeachingFaculty =
  id_teaching :: int
  course :: "string option"
  faculty :: "string option"

text \<open>The state of the database behind the session: the rows of both tables, in the
  order in which an unordered query returns them.\<close>

record school_db =
  subjects :: "Subject list"
  teaching_faculty :: "TeachingFaculty list"

text \<open>One element of the result: the dictionary with the keys \<^verbatim>\<open>"subject"\<close> and
  \<^verbatim>\<open>"faculty"\<close>.\<close>

record SubjectFaculty =
  subject :: Subject
  faculty_out :: "string option"

text \<open>\<^verbatim>\<open>db.query(TeachingFaculty).filter(TeachingFaculty.course == n).first()\<close>\<close>

definition query_faculty_first :: "school_db \<Rightarrow> string option \<Rightarrow> TeachingFaculty option" where
  "query_faculty_first db n = find (\<lambda>r. course r = n) (teaching_faculty db)"

text \<open>The body of the \<^verbatim>\<open>for subject in subjects\<close> loop, with \<open>result\<close> as the
  accumulator that \<^verbatim>\<open>result.append\<close> extends.\<close>

fun subject_loop :: "school_db \<Rightarrow> Subject list \<Rightarrow> SubjectFaculty list \<Rightarrow> SubjectFaculty list" where
  "subject_loop db [] result = result"
| "subject_loop db (s # rest) result =
     (let faculty_record = query_faculty_first db (name s);
          fac = (case faculty_record of Some r \<Rightarrow> faculty r | None \<Rightarrow> None)
      in subject_loop db rest
           (result @
            [\<lparr>subject = \<lparr>id_subject = id_subject s, name = name s,
                          duration = duration s, department = department s\<rparr>,
              faculty_out = fac\<rparr>]))"

definition list_of_subject_faculty_teaching :: "school_db \<Rightarrow> SubjectFaculty list" where
  "list_of_subject_faculty_teaching db = subject_loop db (subjects db) []"

text \<open>One pass of the loop body, as a function of the subject alone.\<close>

definition pair_subject :: "school_db \<Rightarrow> Subject \<Rightarrow> SubjectFaculty" where
  "pair_subject db s =
     \<lparr>subject = s,
      faculty_out = (case query_faculty_first db (name s) of Some r \<Rightarrow> faculty r | None \<Rightarrow> None)\<rparr>"

text \<open>The rows that \<^verbatim>\<open>populate_db.py\<close> inserts.\<close>

definition populated_db :: school_db where
  "populated_db =
     \<lparr>subjects =
        [\<lparr>id_subject = 1, name = Some ''Mathematics'', duration = Some ''6 months'',
            department = Some ''Science''\<rparr>,
         \<lparr>id_subject = 2, name = Some ''Physics'', duration = Some ''6 months'',
            department = Some ''Science''\<rparr>,
         \<lparr>id_subject = 3, name = Some ''Chemistry'', duration = Some ''6 months'',
            department = Some ''Science''\<rparr>],
      teaching_faculty =
        [\<lparr>id_teaching = 1, course = Some ''Mathematics'', faculty = Some ''Dr. Smith''\<rparr>,
         \<lparr>id_teaching = 2, course = Some ''Physics'', faculty = Some ''Dr. Johnson''\<rparr>,
         \<lparr>id_teaching = 3, course = Some ''Chemistry'', faculty = Some ''Dr. Lee''\<rparr>]\<rparr>"


section \<open>User management: the data model\<close>

text \<open>
  \<^verbatim>\<open>python/fastapi/user-management/app/api/user.py\<close> raises
  \<^verbatim>\<open>HTTPException(status_code=..., detail=...)\<close>; an exception is a value of this type.
  Status 400 is the uniqueness conflict and status 404 the missing identifier.
\<close>

datatype HTTPException = HTTPException (status_code: int) (detail: string)

definition Conflict :: "HTTPException \<Rightarrow> bool" where
  "Conflict e = (status_code e = 400)"

definition NotFound :: "HTTPException \<Rightarrow> bool" where
  "NotFound e = (status_code e = 404)"

text \<open>
  Modelled from the spec: the model class \<^verbatim>\<open>User\<close> (\<^verbatim>\<open>app.models\<close> is not among the
  sources). A User has an integer identifier, a username, an email and
  implementation-defined profile fields, kept here as a map from the name of the field
  to its value (of any type \<open>'v\<close>).
\<close>

record 'v User =
  id_user :: int
  username :: string
  email :: string
  profile :: "string \<rightharpoonup> 'v"

text \<open>
  Modelled from the spec: the schema \<^verbatim>\<open>UserCreate\<close> (\<^verbatim>\<open>app.schemas.user\<close> is not among
  the sources), the input of CreateUser: email, username and profile fields.
\<close>

record 'v UserCreate =
  email_create :: string
  username_create :: string
  profile_create :: "string \<rightharpoonup> 'v"

text \<open>
  Modelled from the spec: the schema \<^verbatim>\<open>UserUpdate\<close> (\<^verbatim>\<open>app.schemas.user\<close> is not among
  the sources), the partial input of UpdateUser. Every field is an absent-able value:
  \<open>None\<close> is absent, and a profile field is absent when the map has no entry for its
  name. The identifier is immutable and is no field of the input.
\<close>

record 'v UserUpdate =
  email_upd :: "string option"
  username_upd :: "string option"
  profile_upd :: "string \<rightharpoonup> 'v"

text \<open>
  Modelled from the spec: the store behind \<^verbatim>\<open>db: Session\<close> (\<^verbatim>\<open>app.db.session\<close> is not
  among the sources). It holds the User rows in the store-defined order of the full
  result set, and the next identifier to assign: identifiers are assigned at creation,
  fresh, and never reused after a deletion.
\<close>

record 'v Session =
  users :: "'v User list"
  next_id :: int

text \<open>Modelled from the spec: the invariant of the store. Identifiers are unique, and
  all of them lie below the next identifier to assign (so that the next one is fresh).\<close>

definition store_inv :: "'v Session \<Rightarrow> bool" where
  "store_inv db =
     (distinct (map id_user (users db)) \<and> list_all (\<lambda>u. id_user u < next_id db) (users db))"

text \<open>Modelled from the spec: the store before any User is created.\<close>

definition empty_store :: "'v Session" where
  "empty_store = \<lparr>users = [], next_id = 1\<rparr>"

subsection \<open>The storage operations\<close>

text \<open>Modelled from the spec: \<^verbatim>\<open>crud_user.get_user_by_email\<close> (\<^verbatim>\<open>app/crud/user.py\<close> is
  not among the sources), the exact-match filter on email.\<close>

definition crud_user_get_user_by_email :: "'v Session \<Rightarrow> string \<Rightarrow> 'v User option" where
  "crud_user_get_user_by_email db e = find (\<lambda>u. email u = e) (users db)"

text \<open>Modelled from the spec: \<^verbatim>\<open>crud_user.get_user_by_username\<close>, the exact-match filter
  on username.\<close>

definition crud_user_get_user_by_username :: "'v Session \<Rightarrow> string \<Rightarrow> 'v User option" where
  "crud_user_get_user_by_username db n = find (\<lambda>u. username u = n) (users db)"

text \<open>Modelled from the spec: \<^verbatim>\<open>crud_user.get_user_by_id\<close>, the primary-key lookup.\<close>

definition crud_user_get_user_by_id :: "'v Session \<Rightarrow> int \<Rightarrow> 'v User option" where
  "crud_user_get_user_by_id db i = find (\<lambda>u. id_user u = i) (users db)"

text \<open>Modelled from the spec: \<^verbatim>\<open>crud_user.get_users\<close>, the offset/limit range scan: at
  most \<open>limit\<close> records after skipping \<open>skip\<close> records of the full result set. The spec
  speaks of non-negative offsets and limits only; a negative one counts as zero here.\<close>

definition crud_user_get_users :: "'v Session \<Rightarrow> int \<Rightarrow> int \<Rightarrow> 'v User list" where
  "crud_user_get_users db skip limit = take (nat limit) (drop (nat skip) (users db))"

text \<open>Modelled from the spec: \<^verbatim>\<open>crud_user.create_user\<close>, the insert: it persists the
  new record with the submitted email, username and profile fields under a fresh
  identifier.\<close>

definition crud_user_create_user :: "'v Session \<Rightarrow> 'v UserCreate \<Rightarrow> 'v Session \<times> 'v User" where
  "crud_user_create_user db user =
     (let db_user = \<lparr>id_user = next_id db, username = username_create user,
                     email = email_create user, profile = profile_create user\<rparr>
      in (\<lparr>users = users db @ [db_user], next_id = next_id db + 1\<rparr>, db_user))"

text \<open>Modelled from the spec: the partial update of one record. Every field present in
  the input overwrites the stored field; an absent field is left untouched.\<close>

definition apply_update :: "'v UserUpdate \<Rightarrow> 'v User \<Rightarrow> 'v User" where
  "apply_update user_update u =
     u\<lparr>username := (case username_upd user_update of Some n \<Rightarrow> n | None \<Rightarrow> username u),
       email := (case email_upd user_update of Some e \<Rightarrow> e | None \<Rightarrow> email u),
       profile := profile u ++ profile_upd user_update\<rparr>"

text \<open>Modelled from the spec: \<^verbatim>\<open>crud_user.update_user\<close>, the partial update of the record
  with the identifier of \<open>db_user\<close>. It checks nothing: the spec notes that uniqueness of
  email and username is not validated again.\<close>

definition crud_user_update_user ::
  "'v Session \<Rightarrow> 'v User \<Rightarrow> 'v UserUpdate \<Rightarrow> 'v Session \<times> 'v User" where
  "crud_user_update_user db db_user user_update =
     (db\<lparr>users := map (\<lambda>u. if id_user u = id_user db_user then apply_update user_update u else u)
                       (users db)\<rparr>,
      apply_update user_update db_user)"

text \<open>Modelled from the spec: \<^verbatim>\<open>crud_user.delete_user\<close>, the permanent removal of the
  record with the identifier of \<open>db_user\<close>.\<close>

definition crud_user_delete_user :: "'v Session \<Rightarrow> 'v User \<Rightarrow> 'v Session" where
  "crud_user_delete_user db db_user =
     db\<lparr>users := filter (\<lambda>u. id_user u \<noteq> id_user db_user) (users db)\<rparr>"

subsection \<open>The five operations of \<^verbatim>\<open>app/api/user.py\<close>\<close>

text \<open>
  Each operation takes the store and returns the store after the call together with
  either the exception raised or the value returned. The queries leave the store as it
  is; only the three writing storage operations return a new one.
\<close>

definition create_user ::
  "'v UserCreate \<Rightarrow> 'v Session \<Rightarrow> 'v Session \<times> (HTTPException + 'v User)" where
  "create_user user db =
     (case crud_user_get_user_by_email db (email_create user) of
        Some db_user \<Rightarrow> (db, Inl (HTTPException 400 ''Email already registered''))
      | None \<Rightarrow>
          (case crud_user_get_user_by_username db (username_create user) of
             Some db_user \<Rightarrow> (db, Inl (HTTPException 400 ''Username already registered''))
           | None \<Rightarrow> (case crud_user_create_user db user of (db', u) \<Rightarrow> (db', Inr u))))"

definition get_user :: "int \<Rightarrow> 'v Session \<Rightarrow> 'v Session \<times> (HTTPException + 'v User)" where
  "get_user user_id db =
     (case crud_user_get_user_by_id db user_id of
        None \<Rightarrow> (db, Inl (HTTPException 404 ''User not found''))
      | Some db_user \<Rightarrow> (db, Inr db_user))"

text \<open>\<^verbatim>\<open>skip: int = 0, limit: int = 100\<close>: an argument the caller leaves out is \<open>None\<close> and
  takes its default.\<close>

definition get_users ::
  "int option \<Rightarrow> int option \<Rightarrow> 'v Session \<Rightarrow> 'v Session \<times> (HTTPException + 'v User list)" where
  "get_users skip limit db =
     (db, Inr (crud_user_get_users db (case skip of None \<Rightarrow> 0 | Some k \<Rightarrow> k)
                                     (case limit of None \<Rightarrow> 100 | Some l \<Rightarrow> l)))"

definition update_user ::
  "int \<Rightarrow> 'v UserUpdate \<Rightarrow> 'v Session \<Rightarrow> 'v Session \<times> (HTTPException + 'v User)" where
  "update_user user_id user_update db =
     (case crud_user_get_user_by_id db user_id of
        None \<Rightarrow> (db, Inl (HTTPException 404 ''User not found''))
      | Some db_user \<Rightarrow>
          (case crud_user_update_user db db_user user_update of (db', u) \<Rightarrow> (db', Inr u)))"

definition delete_user :: "int \<Rightarrow> 'v Session \<Rightarrow> 'v Session \<times> (HTTPException + unit)" where
  "delete_user user_id db =
     (case crud_user_get_user_by_id db user_id of
        None \<Rightarrow> (db, Inl (HTTPException 404 ''User not found''))
      | Some db_user \<Rightarrow> (crud_user_delete_user db db_user, Inr ()))"

subsection \<open>Seeded stores\<close>

text \<open>The two users of the spec's scenario, and a store of five users.\<close>

definition alice :: "string User" where
  "alice = \<lparr>id_user = 1, username = ''alice'', email = ''a@x.com'', profile = Map.empty\<rparr>"

definition bob :: "string User" where
  "bob = \<lparr>id_user = 2, username = ''bob'', email = ''b@x.com'', profile = Map.empty\<rparr>"

definition seeded_db :: "string Session" where
  "seeded_db = \<lparr>users = [alice, bob], next_id = 3\<rparr>"

definition five_users :: "string Session" where
  "five_users =
     \<lparr>users = [alice, bob,
               \<lparr>id_user = 3, username = ''carol'', email = ''c@x.com'', profile = Map.empty\<rparr>,
               \<lparr>id_user = 4, username = ''dave'', email = ''d@x.com'', profile = Map.empty\<rparr>,
               \<lparr>id_user = 5, username = ''erin'', email = ''e@x.com'', profile = Map.empty\<rparr>],
      next_id = 6\<rparr>"

text \<open>Requests against the seeded store: one whose email and username are both taken,
  one whose username alone is taken, a valid one, and an update of the email alone.\<close>

definition request_both_taken :: "string UserCreate" where
  "request_both_taken =
     \<lparr>email_create = ''a@x.com'', username_create = ''bob'', profile_create = Map.empty\<rparr>"

definition request_username_taken :: "string UserCreate" where
  "request_username_taken =
     \<lparr>email_create = ''c@x.com'', username_create = ''bob'', profile_create = Map.empty\<rparr>"

definition request_carol :: "string UserCreate" where
  "request_carol =
     \<lparr>email_create = ''c@x.com'', username_create = ''carol'',
      profile_create = [''full_name'' \<mapsto> ''Carol'']\<rparr>"

definition email_only :: "string UserUpdate" where
  "email_only = \<lparr>email_upd = Some ''bob@y.com'', username_upd = None, profile_upd = Map.empty\<rparr>"

section \<open>Properties of the subjects/faculty read path\<close>

subsection \<open>The loop as a map over the subjects\<close>

lemma subject_loop_map:
  "subject_loop db ss acc = acc @ map (pair_subject db) ss"
  by (induction ss arbitrary: acc) (simp_all add: pair_subject_def)

lemma list_of_subject_faculty_teaching_map:
  "list_of_subject_faculty_teaching db = map (pair_subject db) (subjects db)"
  by (simp add: list_of_subject_faculty_teaching_def subject_loop_map)

lemma query_faculty_first_cases:
  "(query_faculty_first db n = None \<and> (\<forall>r \<in> set (teaching_faculty db). course r \<noteq> n)) \<or>
   (\<exists>k < length (teaching_faculty db).
      query_faculty_first db n = Some (teaching_faculty db ! k) \<and>
      course (teaching_faculty db ! k) = n \<and>
      (\<forall>j < k. course (teaching_faculty db ! j) \<noteq> n))"
proof (cases "query_faculty_first db n")
  case None
  then show ?thesis
    by (simp add: query_faculty_first_def find_None_iff)
next
  case (Some r)
  then obtain k where "k < length (teaching_faculty db)"
    "course (teaching_faculty db ! k) = n" "r = teaching_faculty db ! k"
    "\<forall>j < k. course (teaching_faculty db ! j) \<noteq> n"
    unfolding query_faculty_first_def find_Some_iff by blast
  with Some show ?thesis by blast
qed

text \<open>
  Claim C9. The subjects/faculty read path returns one record per Subject, in the order
  of the subjects: record \<open>i\<close> carries subject \<open>i\<close> unchanged, and its faculty is the
  faculty of the first TeachingFaculty row whose course equals the subject's name
  exactly (equality of strings, so case-sensitively); when no row matches, the record
  carries no faculty.
\<close>

theorem list_of_subject_faculty_teaching_first_match:
  "length (list_of_subject_faculty_teaching db) = length (subjects db) \<and>
   (\<forall>i < length (subjects db).
      subject (list_of_subject_faculty_teaching db ! i) = subjects db ! i \<and>
      (((\<forall>r \<in> set (teaching_faculty db). course r \<noteq> name (subjects db ! i)) \<and>
        faculty_out (list_of_subject_faculty_teaching db ! i) = None) \<or>
       (\<exists>k < length (teaching_faculty db).
          course (teaching_faculty db ! k) = name (subjects db ! i) \<and>
          (\<forall>j < k. course (teaching_faculty db ! j) \<noteq> name (subjects db ! i)) \<and>
          faculty_out (list_of_subject_faculty_teaching db ! i) =
            faculty (teaching_faculty db ! k))))"
proof (intro conjI allI impI)
  show "length (list_of_subject_faculty_teaching db) = length (subjects db)"
    by (simp add: list_of_subject_faculty_teaching_map)
next
  fix i assume i: "i < length (subjects db)"
  then show "subject (list_of_subject_faculty_teaching db ! i) = subjects db ! i"
    by (simp add: list_of_subject_faculty_teaching_map pair_subject_def)
next
  fix i assume i: "i < length (subjects db)"
  let ?n = "name (subjects db ! i)"
  have out: "faculty_out (list_of_subject_faculty_teaching db ! i) =
      (case query_faculty_first db ?n of Some r \<Rightarrow> faculty r | None \<Rightarrow> None)"
    using i by (simp add: list_of_subject_faculty_teaching_map pair_subject_def)
  from query_faculty_first_cases [of db ?n]
  show "((\<forall>r \<in> set (teaching_faculty db). course r \<noteq> ?n) \<and>
        faculty_out (list_of_subject_faculty_teaching db ! i) = None) \<or>
       (\<exists>k < length (teaching_faculty db).
          course (teaching_faculty db ! k) = ?n \<and>
          (\<forall>j < k. course (teaching_faculty db ! j) \<noteq> ?n) \<and>
          faculty_out (list_of_subject_faculty_teaching db ! i) =
            faculty (teaching_faculty db ! k))"
  proof (elim disjE conjE exE)
    assume "query_faculty_first db ?n = None"
      "\<forall>r \<in> set (teaching_faculty db). course r \<noteq> ?n"
    then show ?thesis using out by simp
  next
    fix k
    assume "k < length (teaching_faculty db)"
      "query_faculty_first db ?n = Some (teaching_faculty db ! k)"
      "course (teaching_faculty db ! k) = ?n"
      "\<forall>j < k. course (teaching_faculty db ! j) \<noteq> ?n"
    then show ?thesis using out by auto
  qed
qed

theorem list_of_subject_faculty_teaching_first_match_witness:
  "length (list_of_subject_faculty_teaching populated_db) = 3 \<and>
   subject (list_of_subject_faculty_teaching populated_db ! 1) = subjects populated_db ! 1 \<and>
   faculty_out (list_of_subject_faculty_teaching populated_db ! 1) = Some ''Dr. Johnson''"
proof -
  have len: "length (subjects populated_db) = 3"
    by (simp add: populated_db_def)
  have i: "(1::nat) < length (subjects populated_db)"
    by (simp add: len)
  note t = list_of_subject_faculty_teaching_first_match [of populated_db]
  from t have l: "length (list_of_subject_faculty_teaching populated_db) = 3"
    by (simp add: len)
  from t i have s:
    "subject (list_of_subject_faculty_teaching populated_db ! 1) = subjects populated_db ! 1"
    by blast
  from t i have d:
    "((\<forall>r \<in> set (teaching_faculty populated_db).
         course r \<noteq> name (subjects populated_db ! 1)) \<and>
      faculty_out (list_of_subject_faculty_teaching populated_db ! 1) = None) \<or>
     (\<exists>k < length (teaching_faculty populated_db).
        course (teaching_faculty populated_db ! k) = name (subjects populated_db ! 1) \<and>
        (\<forall>j < k. course (teaching_faculty populated_db ! j) \<noteq>
                  name (subjects populated_db ! 1)) \<and>
        faculty_out (list_of_subject_faculty_teaching populated_db ! 1) =
          faculty (teaching_faculty populated_db ! k))"
    by blast
  have n: "name (subjects populated_db ! 1) = Some ''Physics''"
    by (simp add: populated_db_def)
  have tf: "teaching_faculty populated_db =
        [\<lparr>id_teaching = 1, course = Some ''Mathematics'', faculty = Some ''Dr. Smith''\<rparr>,
         \<lparr>id_teaching = 2, course = Some ''Physics'', faculty = Some ''Dr. Johnson''\<rparr>,
         \<lparr>id_teaching = 3, course = Some ''Chemistry'', faculty = Some ''Dr. Lee''\<rparr>]"
    by (simp add: populated_db_def)
  from d have "faculty_out (list_of_subject_faculty_teaching populated_db ! 1) =
      Some ''Dr. Johnson''"
    unfolding n tf by (auto simp: less_Suc_eq numeral_3_eq_3)
  with l s show ?thesis by blast
qed

section \<open>Properties of the user operations\<close>

subsection \<open>Lookups in a table\<close>

lemma find_ex_Some: "\<exists>x \<in> set xs. P x \<Longrightarrow> \<exists>y. find P xs = Some y \<and> P y \<and> y \<in> set xs"
  by (induction xs) auto

lemma find_distinct_key:
  "distinct (map f xs) \<Longrightarrow> x \<in> set xs \<Longrightarrow> find (\<lambda>y. f y = f x) xs = Some x"
  by (induction xs) (auto simp: image_iff)

lemma find_map_keyed:
  "(\<And>x. f (g x) = f x) \<Longrightarrow>
   find (\<lambda>y. f y = k) (map (\<lambda>x. if f x = k then g x else x) xs) =
   map_option g (find (\<lambda>y. f y = k) xs)"
  by (induction xs) auto

lemma find_append_fresh:
  "\<forall>x \<in> set xs. \<not> P x \<Longrightarrow> P y \<Longrightarrow> find P (xs @ [y]) = Some y"
  by (induction xs) auto

lemma id_user_apply_update [simp]: "id_user (apply_update upd u) = id_user u"
  by (simp add: apply_update_def)

lemmas seeded_simps = seeded_db_def alice_def bob_def

subsection \<open>The invariant of the store holds in every reachable state\<close>

lemma store_inv_empty: "store_inv empty_store"
  by (simp add: store_inv_def empty_store_def)

lemma store_inv_create_user: "store_inv db \<Longrightarrow> store_inv (fst (create_user user db))"
  by (auto simp: store_inv_def create_user_def crud_user_create_user_def Let_def list_all_iff
           split: option.splits)

lemma store_inv_update_user: "store_inv db \<Longrightarrow> store_inv (fst (update_user user_id upd db))"
proof -
  have m: "id_user \<circ> (\<lambda>u. if id_user u = k then apply_update upd u else u) = id_user"
    for k by (rule ext) simp
  assume "store_inv db"
  then show ?thesis
    unfolding store_inv_def update_user_def crud_user_update_user_def
    by (auto simp: m list_all_iff split: option.splits)
qed

lemma store_inv_delete_user: "store_inv db \<Longrightarrow> store_inv (fst (delete_user user_id db))"
  by (auto simp: store_inv_def delete_user_def crud_user_delete_user_def list_all_iff distinct_map_filter
           split: option.splits)

lemma get_user_leaves_store: "fst (get_user user_id db) = db"
  by (simp add: get_user_def split: option.splits)

lemma get_users_leaves_store: "fst (get_users skip limit db) = db"
  by (simp add: get_users_def)

subsection \<open>CreateUser\<close>

text \<open>
  Claim C1. In every store and for every request: when some existing User has the
  requested email, CreateUser fails with Conflict and reports the email (also when the
  username is taken as well, since the email is checked first); when no User has the
  email but some User has the requested username, CreateUser fails with Conflict and
  reports the username.
\<close>

theorem create_user_conflict_order:
  "((\<exists>u \<in> set (users db). email u = email_create user) \<longrightarrow>
      (\<exists>e. create_user user db = (db, Inl e) \<and> Conflict e \<and> detail e = ''Email already registered'')) \<and>
   ((\<forall>u \<in> set (users db). email u \<noteq> email_create user) \<and>
    (\<exists>u \<in> set (users db). username u = username_create user) \<longrightarrow>
      (\<exists>e. create_user user db = (db, Inl e) \<and> Conflict e \<and> detail e = ''Username already registered''))"
proof (intro conjI impI)
  assume "\<exists>u \<in> set (users db). email u = email_create user"
  then obtain y where "crud_user_get_user_by_email db (email_create user) = Some y"
    unfolding crud_user_get_user_by_email_def using find_ex_Some [of "users db" "\<lambda>u. email u = email_create user"] by blast
  then show "\<exists>e. create_user user db = (db, Inl e) \<and> Conflict e \<and> detail e = ''Email already registered''"
    by (simp add: create_user_def Conflict_def)
next
  assume a: "(\<forall>u \<in> set (users db). email u \<noteq> email_create user) \<and>
    (\<exists>u \<in> set (users db). username u = username_create user)"
  then have "crud_user_get_user_by_email db (email_create user) = None"
    by (simp add: crud_user_get_user_by_email_def find_None_iff)
  moreover from a obtain y where "crud_user_get_user_by_username db (username_create user) = Some y"
    unfolding crud_user_get_user_by_username_def using find_ex_Some [of "users db" "\<lambda>u. username u = username_create user"] by blast
  ultimately show "\<exists>e. create_user user db = (db, Inl e) \<and> Conflict e \<and> detail e = ''Username already registered''"
    by (simp add: create_user_def Conflict_def)
qed

theorem create_user_conflict_order_witness:
  "''a@x.com'' \<in> set (map email (users seeded_db)) \<and>
   ''bob'' \<in> set (map username (users seeded_db)) \<and>
   (\<exists>e. create_user request_both_taken seeded_db = (seeded_db, Inl e) \<and> Conflict e \<and>
        detail e = ''Email already registered'') \<and>
   ''c@x.com'' \<notin> set (map email (users seeded_db)) \<and>
   (\<exists>e. create_user request_username_taken seeded_db = (seeded_db, Inl e) \<and> Conflict e \<and>
        detail e = ''Username already registered'')"
proof -
  have a: "\<exists>u \<in> set (users seeded_db). email u = email_create request_both_taken"
    by (simp add: seeded_simps request_both_taken_def)
  have b: "(\<forall>u \<in> set (users seeded_db). email u \<noteq> email_create request_username_taken) \<and>
      (\<exists>u \<in> set (users seeded_db). username u = username_create request_username_taken)"
    by (simp add: seeded_simps request_username_taken_def)
  have c: "''a@x.com'' \<in> set (map email (users seeded_db))"
    "''bob'' \<in> set (map username (users seeded_db))"
    "''c@x.com'' \<notin> set (map email (users seeded_db))"
    by (simp_all add: seeded_simps)
  from a b c
    create_user_conflict_order [of seeded_db request_both_taken]
    create_user_conflict_order [of seeded_db request_username_taken]
  show ?thesis by blast
qed

text \<open>
  Claim C8. Whenever CreateUser fails, the failure is a Conflict and the store after the
  call is the store before it; in particular the number of records is the same.
\<close>

theorem create_user_failure_leaves_store:
  "snd (create_user user db) = Inl e \<Longrightarrow>
   Conflict e \<and> fst (create_user user db) = db \<and>
   length (users (fst (create_user user db))) = length (users db)"
  by (auto simp: create_user_def Conflict_def split: option.splits prod.splits)

theorem create_user_failure_leaves_store_witness:
  "snd (create_user request_both_taken seeded_db) =
     Inl (HTTPException 400 ''Email already registered'') \<and>
   Conflict (HTTPException 400 ''Email already registered'') \<and>
   fst (create_user request_both_taken seeded_db) = seeded_db \<and>
   length (users (fst (create_user request_both_taken seeded_db))) = length (users seeded_db)"
proof -
  have f: "snd (create_user request_both_taken seeded_db) =
      Inl (HTTPException 400 ''Email already registered'')"
    by (simp add: create_user_def crud_user_get_user_by_email_def seeded_simps
        request_both_taken_def)
  from f create_user_failure_leaves_store [OF f] show ?thesis by blast
qed

text \<open>
  Claim C5. In a store that satisfies its invariant, for every request whose email and
  username no User has yet, CreateUser succeeds with an identifier that no User had, and
  GetUser on that identifier in the resulting store returns the created User, whose
  email, username and profile fields are the submitted ones.
\<close>

theorem create_user_then_get_user:
  "store_inv db \<Longrightarrow>
   \<forall>x \<in> set (users db). email x \<noteq> email_create user \<Longrightarrow>
   \<forall>x \<in> set (users db). username x \<noteq> username_create user \<Longrightarrow>
   \<exists>db' u. create_user user db = (db', Inr u) \<and>
     (\<forall>x \<in> set (users db). id_user x \<noteq> id_user u) \<and>
     get_user (id_user u) db' = (db', Inr u) \<and>
     email u = email_create user \<and> username u = username_create user \<and>
     profile u = profile_create user"
proof -
  assume inv: "store_inv db"
    and e: "\<forall>x \<in> set (users db). email x \<noteq> email_create user"
    and n: "\<forall>x \<in> set (users db). username x \<noteq> username_create user"
  let ?u = "\<lparr>id_user = next_id db, username = username_create user,
             email = email_create user, profile = profile_create user\<rparr>"
  let ?db' = "\<lparr>users = users db @ [?u], next_id = next_id db + 1\<rparr>"
  from e have "crud_user_get_user_by_email db (email_create user) = None"
    by (simp add: crud_user_get_user_by_email_def find_None_iff)
  moreover from n have "crud_user_get_user_by_username db (username_create user) = None"
    by (simp add: crud_user_get_user_by_username_def find_None_iff)
  ultimately have c: "create_user user db = (?db', Inr ?u)"
    by (simp add: create_user_def crud_user_create_user_def Let_def)
  from inv have fresh: "\<forall>x \<in> set (users db). id_user x \<noteq> id_user ?u"
    by (auto simp: store_inv_def list_all_iff)
  then have "crud_user_get_user_by_id ?db' (id_user ?u) = Some ?u"
    unfolding crud_user_get_user_by_id_def
    using find_append_fresh [of "users db" "\<lambda>x. id_user x = id_user ?u" ?u] by simp
  then have g: "get_user (id_user ?u) ?db' = (?db', Inr ?u)"
    by (simp add: get_user_def)
  show ?thesis
    using c fresh g by (intro exI [of _ ?db'] exI [of _ ?u]) simp
qed

theorem create_user_then_get_user_witness:
  "store_inv seeded_db \<and>
   ''c@x.com'' \<notin> set (map email (users seeded_db)) \<and>
   ''carol'' \<notin> set (map username (users seeded_db)) \<and>
   (\<exists>db' u. create_user request_carol seeded_db = (db', Inr u) \<and>
      id_user u \<notin> set (map id_user (users seeded_db)) \<and>
      get_user (id_user u) db' = (db', Inr u) \<and>
      email u = ''c@x.com'' \<and> username u = ''carol'' \<and>
      profile u = [''full_name'' \<mapsto> ''Carol''])"
proof -
  have i: "store_inv seeded_db"
    by (simp add: store_inv_def seeded_simps)
  have e: "\<forall>x \<in> set (users seeded_db). email x \<noteq> email_create request_carol"
    by (simp add: seeded_simps request_carol_def)
  have n: "\<forall>x \<in> set (users seeded_db). username x \<noteq> username_create request_carol"
    by (simp add: seeded_simps request_carol_def)
  have m: "''c@x.com'' \<notin> set (map email (users seeded_db))"
    "''carol'' \<notin> set (map username (users seeded_db))"
    by (simp_all add: seeded_simps)
  have r: "email_create request_carol = ''c@x.com''" "username_create request_carol = ''carol''"
    "profile_create request_carol = [''full_name'' \<mapsto> ''Carol'']"
    by (simp_all add: request_carol_def)
  from create_user_then_get_user [OF i e n] obtain db' u where
    c: "create_user request_carol seeded_db = (db', Inr u)"
      "\<forall>x \<in> set (users seeded_db). id_user x \<noteq> id_user u"
      "get_user (id_user u) db' = (db', Inr u)"
      "email u = ''c@x.com''" "username u = ''carol''"
      "profile u = [''full_name'' \<mapsto> ''Carol'']"
    unfolding r by blast
  from c(2) have "id_user u \<notin> set (map id_user (users seeded_db))"
    by auto
  with c i m show ?thesis by blast
qed

subsection \<open>Missing and deleted identifiers\<close>

text \<open>
  Claim C6. When no User has the identifier, GetUser, UpdateUser and DeleteUser each
  fail with NotFound (and leave the store as it is).
\<close>

theorem missing_identifier_not_found:
  "\<forall>u \<in> set (users db). id_user u \<noteq> user_id \<Longrightarrow>
   (\<exists>e. NotFound e \<and>
      get_user user_id db = (db, Inl e) \<and>
      update_user user_id user_update db = (db, Inl e) \<and>
      delete_user user_id db = (db, Inl e))"
proof -
  assume "\<forall>u \<in> set (users db). id_user u \<noteq> user_id"
  then have "crud_user_get_user_by_id db user_id = None"
    by (simp add: crud_user_get_user_by_id_def find_None_iff)
  then show ?thesis
    by (simp add: get_user_def update_user_def delete_user_def NotFound_def)
qed

theorem missing_identifier_not_found_witness:
  "7 \<notin> set (map id_user (users seeded_db)) \<and>
   (\<exists>e. NotFound e \<and>
      get_user 7 seeded_db = (seeded_db, Inl e) \<and>
      update_user 7 email_only seeded_db = (seeded_db, Inl e) \<and>
      delete_user 7 seeded_db = (seeded_db, Inl e))"
proof -
  have h: "\<forall>u \<in> set (users seeded_db). id_user u \<noteq> 7"
    by (simp add: seeded_simps)
  have "7 \<notin> set (map id_user (users seeded_db))"
    by (simp add: seeded_simps)
  with missing_identifier_not_found [OF h, of email_only] show ?thesis by blast
qed

text \<open>
  Claim C7. When some User has the identifier, DeleteUser succeeds, no User of the
  resulting store has the identifier, and GetUser on it then fails with NotFound.
\<close>

theorem delete_user_then_get_user:
  "\<exists>u \<in> set (users db). id_user u = user_id \<Longrightarrow>
   (\<exists>db' e. delete_user user_id db = (db', Inr ()) \<and>
      (\<forall>u \<in> set (users db'). id_user u \<noteq> user_id) \<and>
      get_user user_id db' = (db', Inl e) \<and> NotFound e)"
proof -
  assume "\<exists>u \<in> set (users db). id_user u = user_id"
  then obtain y where y: "crud_user_get_user_by_id db user_id = Some y" "id_user y = user_id"
    unfolding crud_user_get_user_by_id_def using find_ex_Some [of "users db" "\<lambda>u. id_user u = user_id"] by blast
  let ?db' = "crud_user_delete_user db y"
  have d: "delete_user user_id db = (?db', Inr ())"
    using y by (simp add: delete_user_def)
  have n: "\<forall>u \<in> set (users ?db'). id_user u \<noteq> user_id"
    using y by (simp add: crud_user_delete_user_def)
  then have "crud_user_get_user_by_id ?db' user_id = None"
    by (simp add: crud_user_get_user_by_id_def find_None_iff)
  then have "get_user user_id ?db' = (?db', Inl (HTTPException 404 ''User not found''))"
    by (simp add: get_user_def)
  with d n show ?thesis by (auto simp: NotFound_def)
qed

theorem delete_user_then_get_user_witness:
  "2 \<in> set (map id_user (users seeded_db)) \<and>
   (\<exists>db' e. delete_user 2 seeded_db = (db', Inr ()) \<and>
      2 \<notin> set (map id_user (users db')) \<and>
      get_user 2 db' = (db', Inl e) \<and> NotFound e)"
proof -
  have h: "\<exists>u \<in> set (users seeded_db). id_user u = 2"
    by (simp add: seeded_simps)
  have "2 \<in> set (map id_user (users seeded_db))"
    by (simp add: seeded_simps)
  with delete_user_then_get_user [OF h] show ?thesis by auto
qed

subsection \<open>ListUsers\<close>

text \<open>
  Claim C3. For every store and all non-negative \<open>skip\<close> and \<open>limit\<close>, ListUsers does
  not fail and leaves the store as it is; it returns at most \<open>limit\<close> records, namely
  the records of the full result set from position \<open>skip\<close> on, and none when \<open>skip\<close>
  is at least the number of records. On five users, offset 0 limit 2 gives two records,
  offset 4 limit 2 gives one, offset 10 limit 2 gives none.
\<close>

theorem get_users_offset_limit:
  "0 \<le> skip \<Longrightarrow> 0 \<le> limit \<Longrightarrow>
   \<exists>xs. get_users (Some skip) (Some limit) db = (db, Inr xs) \<and>
     int (length xs) \<le> limit \<and>
     length xs = min (nat limit) (length (users db) - nat skip) \<and>
     (\<forall>i < length xs. xs ! i = users db ! (nat skip + i)) \<and>
     (int (length (users db)) \<le> skip \<longrightarrow> xs = []) \<and>
     (length (users db) = 5 \<longrightarrow>
        (skip = 0 \<and> limit = 2 \<longrightarrow> length xs = 2) \<and>
        (skip = 4 \<and> limit = 2 \<longrightarrow> length xs = 1) \<and>
        (skip = 10 \<and> limit = 2 \<longrightarrow> xs = []))"
proof -
  assume s: "0 \<le> skip" and l: "0 \<le> limit"
  let ?xs = "take (nat limit) (drop (nat skip) (users db))"
  have r: "get_users (Some skip) (Some limit) db = (db, Inr ?xs)"
    by (simp add: get_users_def crud_user_get_users_def)
  have len: "length ?xs = min (nat limit) (length (users db) - nat skip)"
    by (simp add: min.commute)
  have le: "int (length ?xs) \<le> limit"
    using l by simp
  have nth: "\<forall>i < length ?xs. ?xs ! i = users db ! (nat skip + i)"
    by (auto simp: nth_drop)
  have beyond: "int (length (users db)) \<le> skip \<longrightarrow> ?xs = []"
    by auto
  have five: "length (users db) = 5 \<longrightarrow>
        (skip = 0 \<and> limit = 2 \<longrightarrow> length ?xs = 2) \<and>
        (skip = 4 \<and> limit = 2 \<longrightarrow> length ?xs = 1) \<and>
        (skip = 10 \<and> limit = 2 \<longrightarrow> ?xs = [])"
    by auto
  show ?thesis
    apply (intro exI [of _ ?xs] conjI)
    using r len le nth beyond five by blast+
qed

theorem get_users_offset_limit_witness:
  "(0::int) \<le> 4 \<and> (0::int) \<le> 2 \<and> length (users five_users) = 5 \<and>
   (\<exists>xs. get_users (Some 4) (Some 2) five_users = (five_users, Inr xs) \<and> length xs = 1 \<and>
         xs ! 0 = users five_users ! 4)"
proof -
  have l: "length (users five_users) = 5"
    by (simp add: five_users_def)
  from get_users_offset_limit [of 4 2 five_users] l show ?thesis
    by auto
qed

text \<open>
  Claim C10. ListUsers without an explicit offset takes offset 0, and without an
  explicit limit takes limit 100: called with neither, it skips nothing and returns the
  first 100 records at most.
\<close>

theorem get_users_defaults:
  "get_users None None db = get_users (Some 0) (Some 100) db \<and>
   get_users None (Some limit) db = get_users (Some 0) (Some limit) db \<and>
   get_users (Some skip) None db = get_users (Some skip) (Some 100) db \<and>
   (\<exists>xs. get_users None None db = (db, Inr xs) \<and> xs = take 100 (users db) \<and>
         length xs \<le> 100)"
  by (simp add: get_users_def crud_user_get_users_def)

subsection \<open>UpdateUser\<close>

text \<open>
  Claim C2. For every User \<open>u\<close> of a store with unique identifiers and every partial
  input, UpdateUser on the identifier of \<open>u\<close> succeeds, and the record it returns is the
  record stored afterwards: the identifier is the old one; email, username and every
  profile field hold the input's value where the input supplies one and the old value
  where it is absent. In particular an input that sets only the email, only the
  username or only profile fields changes that part and nothing else. No row is added
  or removed, and the rows of the other users stay as they were.
\<close>

theorem update_user_partial:
  "store_inv db \<Longrightarrow> u \<in> set (users db) \<Longrightarrow>
   \<exists>db' u'. update_user (id_user u) upd db = (db', Inr u') \<and>
     get_user (id_user u) db' = (db', Inr u') \<and>
     id_user u' = id_user u \<and>
     email u' = (case email_upd upd of Some e \<Rightarrow> e | None \<Rightarrow> email u) \<and>
     username u' = (case username_upd upd of Some n \<Rightarrow> n | None \<Rightarrow> username u) \<and>
     (\<forall>f. profile u' f = (case profile_upd upd f of Some v \<Rightarrow> Some v | None \<Rightarrow> profile u f)) \<and>
     (username_upd upd = None \<and> profile_upd upd = Map.empty \<longrightarrow>
        u' = u\<lparr>email := (case email_upd upd of Some e \<Rightarrow> e | None \<Rightarrow> email u)\<rparr>) \<and>
     (email_upd upd = None \<and> profile_upd upd = Map.empty \<longrightarrow>
        u' = u\<lparr>username := (case username_upd upd of Some n \<Rightarrow> n | None \<Rightarrow> username u)\<rparr>) \<and>
     (email_upd upd = None \<and> username_upd upd = None \<longrightarrow>
        u' = u\<lparr>profile := profile u ++ profile_upd upd\<rparr>) \<and>
     length (users db') = length (users db) \<and>
     (\<forall>i < length (users db).
        id_user (users db ! i) \<noteq> id_user u \<longrightarrow> users db' ! i = users db ! i)"
proof -
  assume inv: "store_inv db" and u: "u \<in> set (users db)"
  let ?u' = "apply_update upd u"
  let ?db' = "db\<lparr>users := map (\<lambda>x. if id_user x = id_user u then apply_update upd x else x) (users db)\<rparr>"
  from inv u have g: "crud_user_get_user_by_id db (id_user u) = Some u"
    unfolding crud_user_get_user_by_id_def store_inv_def
    using find_distinct_key [of id_user "users db" u] by simp
  then have upd: "update_user (id_user u) upd db = (?db', Inr ?u')"
    by (simp add: update_user_def crud_user_update_user_def)
  have "crud_user_get_user_by_id ?db' (id_user u) = map_option (apply_update upd) (crud_user_get_user_by_id db (id_user u))"
    unfolding crud_user_get_user_by_id_def
    using find_map_keyed [of id_user "apply_update upd" "id_user u" "users db"] by simp
  with g have get: "get_user (id_user u) ?db' = (?db', Inr ?u')"
    by (simp add: get_user_def)
  have fields: "id_user ?u' = id_user u"
    "email ?u' = (case email_upd upd of Some e \<Rightarrow> e | None \<Rightarrow> email u)"
    "username ?u' = (case username_upd upd of Some n \<Rightarrow> n | None \<Rightarrow> username u)"
    by (simp_all add: apply_update_def)
  have prof: "\<forall>f. profile ?u' f = (case profile_upd upd f of Some v \<Rightarrow> Some v | None \<Rightarrow> profile u f)"
    by (simp add: apply_update_def map_add_def)
  have one_e: "username_upd upd = None \<and> profile_upd upd = Map.empty \<longrightarrow>
        ?u' = u\<lparr>email := (case email_upd upd of Some e \<Rightarrow> e | None \<Rightarrow> email u)\<rparr>"
    by (simp add: apply_update_def)
  have one_n: "email_upd upd = None \<and> profile_upd upd = Map.empty \<longrightarrow>
        ?u' = u\<lparr>username := (case username_upd upd of Some n \<Rightarrow> n | None \<Rightarrow> username u)\<rparr>"
    by (simp add: apply_update_def)
  have one_p: "email_upd upd = None \<and> username_upd upd = None \<longrightarrow>
        ?u' = u\<lparr>profile := profile u ++ profile_upd upd\<rparr>"
    by (simp add: apply_update_def)
  have others: "\<forall>i < length (users db).
        id_user (users db ! i) \<noteq> id_user u \<longrightarrow> users ?db' ! i = users db ! i"
    by simp
  have sz: "length (users ?db') = length (users db)"
    by simp
  show ?thesis
    apply (intro exI [of _ ?db'] exI [of _ ?u'] conjI)
    using upd get fields prof one_e one_n one_p others sz by blast+
qed

theorem update_user_partial_witness:
  "store_inv seeded_db \<and> bob \<in> set (users seeded_db) \<and>
   (\<exists>db' u'. update_user 2 email_only seeded_db = (db', Inr u') \<and>
      get_user 2 db' = (db', Inr u') \<and>
      u' = bob\<lparr>email := ''bob@y.com''\<rparr> \<and>
      users db' ! 0 = alice)"
proof -
  have i: "store_inv seeded_db"
    by (simp add: store_inv_def seeded_simps)
  have b: "bob \<in> set (users seeded_db)"
    by (simp add: seeded_db_def)
  have f: "id_user bob = 2" "username_upd email_only = None" "profile_upd email_only = Map.empty"
    "email_upd email_only = Some ''bob@y.com''"
    by (simp_all add: bob_def email_only_def)
  have a: "0 < length (users seeded_db)" "users seeded_db ! 0 = alice"
    "id_user (users seeded_db ! 0) \<noteq> 2"
    by (simp_all add: seeded_simps)
  from update_user_partial [OF i b, of email_only] obtain db' u' where
    r: "update_user 2 email_only seeded_db = (db', Inr u')"
      "get_user 2 db' = (db', Inr u')"
      "u' = bob\<lparr>email := ''bob@y.com''\<rparr>"
      "\<forall>i < length (users seeded_db).
        id_user (users seeded_db ! i) \<noteq> 2 \<longrightarrow> users db' ! i = users seeded_db ! i"
    unfolding f by auto
  from r(4) a have "users db' ! 0 = alice" by auto
  with r i b show ?thesis by blast
qed

text \<open>
  Claim C4. UpdateUser validates no uniqueness: there is a store with unique
  identifiers, emails and usernames, and a partial input, on which UpdateUser succeeds
  and leaves two Users with the same email.
\<close>

theorem update_user_can_duplicate:
  "\<exists>(db :: string Session) user_id upd db' u'.
     store_inv db \<and> distinct (map email (users db)) \<and> distinct (map username (users db)) \<and>
     update_user user_id upd db = (db', Inr u') \<and>
     \<not> distinct (map email (users db'))"
proof -
  let ?upd = "\<lparr>email_upd = Some ''a@x.com'', username_upd = None, profile_upd = Map.empty\<rparr> :: string UserUpdate"
  have "store_inv seeded_db" 
    by (simp add: store_inv_def seeded_db_def alice_def bob_def)
  moreover have "distinct (map email (users seeded_db))" "distinct (map username (users seeded_db))"
    by (simp_all add: seeded_db_def alice_def bob_def)
  moreover have "update_user 2 ?upd seeded_db =
      (seeded_db\<lparr>users := [alice, bob\<lparr>email := ''a@x.com''\<rparr>]\<rparr>, Inr (bob\<lparr>email := ''a@x.com''\<rparr>))"
    by (simp add: update_user_def crud_user_get_user_by_id_def crud_user_update_user_def
        apply_update_def seeded_db_def alice_def bob_def)
  moreover have "\<not> distinct (map email (users (seeded_db\<lparr>users := [alice, bob\<lparr>email := ''a@x.com''\<rparr>]\<rparr>)))"
    by (simp add: alice_def bob_def)
  ultimately show ?thesis by blast
qed

end
